theory Spec2Isabelle
  imports Main "HOL-Library.Sublist"
begin

section \<open>Notification aggregator (src/contexts/NotificationContext.tsx)\<close>

subsection \<open>Data model\<close>

text \<open>
  The declaration of \<^verbatim>\<open>Notification\<close> lives in \<^verbatim>\<open>../types\<close>, which is not among the
  sources; the fields are the ones the object literals of the provider write. The open
  \<^verbatim>\<open>data\<close> bag is kept as a list of key/value pairs.
\<close>

type_synonym payload = "(string \<times> string) list"

record notification =
  id_n :: int
  notification_type :: string
  title :: string
  message :: string
  is_read :: bool
  created_at :: string
  data :: payload

text \<open>
  Everything the provider does besides updating its three state cells: requests to the
  REST client, messages handed to the push-channel service, and lines written with
  \<^verbatim>\<open>console.error\<close> (the fixed text and the caught error).
\<close>

datatype effect =
    ApiGetNotifications
  | ApiGetUnreadCount
  | ApiMarkAsRead int
  | ApiMarkAllAsRead
  | WsMarkNotificationAsRead int
  | WsMarkAllNotificationsAsRead
  | ConsoleError string string

text \<open>How an awaited promise (or a call that may throw) settles.\<close>

datatype 'a outcome = Resolved 'a | Rejected string

text \<open>
  The three \<^verbatim>\<open>useState\<close> cells of \<^verbatim>\<open>NotificationProvider\<close>, and the trace of effects
  issued so far.
\<close>

record provider =
  notifications :: "notification list"
  unreadCount :: int
  loading :: bool
  effects :: "effect list"

definition initial :: provider where
  "initial = \<lparr>notifications = [], unreadCount = 0, loading = True, effects = []\<rparr>"

definition emit :: "effect \<Rightarrow> provider \<Rightarrow> provider" where
  "emit e s = s\<lparr>effects := effects s @ [e]\<rparr>"

subsection \<open>Operations\<close>

text \<open>
  \<^verbatim>\<open>Promise.all([p, q])\<close>: resolved with both values when both resolve, otherwise rejected
  with the reason of the promise that rejects first; \<open>p_first\<close> says that \<open>p\<close> settles
  before \<open>q\<close>.
\<close>

fun promise_all :: "bool \<Rightarrow> 'a outcome \<Rightarrow> 'b outcome \<Rightarrow> ('a \<times> 'b) outcome" where
  "promise_all p_first (Resolved a) (Resolved b) = Resolved (a, b)"
| "promise_all p_first (Rejected e) (Resolved b) = Rejected e"
| "promise_all p_first (Resolved a) (Rejected e) = Rejected e"
| "promise_all p_first (Rejected e) (Rejected e') = Rejected (if p_first then e else e')"

text \<open>
  \<^verbatim>\<open>loadNotifications\<close>: both requests are issued, then the \<^verbatim>\<open>try\<close> body either stores
  both results or the \<^verbatim>\<open>catch\<close> logs; the \<^verbatim>\<open>finally\<close> clears the loading flag.
\<close>

definition loadNotifications ::
  "bool \<Rightarrow> notification list outcome \<Rightarrow> int outcome \<Rightarrow> provider \<Rightarrow> provider" where
  "loadNotifications p_first notificationsData unreadCountData s =
     (let s1 = emit ApiGetUnreadCount (emit ApiGetNotifications (s\<lparr>loading := True\<rparr>));
          s2 = (case promise_all p_first notificationsData unreadCountData of
                  Resolved (ns, c) \<Rightarrow> s1\<lparr>notifications := ns, unreadCount := c\<rparr>
                | Rejected e \<Rightarrow> emit (ConsoleError ''Failed to load notifications:'' e) s1)
      in s2\<lparr>loading := False\<rparr>)"

text \<open>
  The counter is a JavaScript \<^verbatim>\<open>number\<close>, a binary64 value. It is kept here as the
  integer it denotes (counts that are not integers, \<^verbatim>\<open>NaN\<close> and the infinities are left
  out). A sum or difference is the exact result rounded to the nearest representable
  value, ties to the even significand: integers up to \<open>2\<^sup>5\<^sup>3 = 9007199254740992\<close> in
  magnitude are exact, and from there on the representable integers lie \<open>spacing\<close> apart,
  2 up to \<open>2\<^sup>5\<^sup>4\<close>, 4 up to \<open>2\<^sup>5\<^sup>5\<close>, and so on.
\<close>

function spacing :: "nat \<Rightarrow> nat" where
  "spacing a = (if a < 9007199254740992 then 1 else 2 * spacing (a div 2))"
  by pat_completeness auto
termination
  by (relation "measure (\<lambda>a. a)") auto

declare spacing.simps [simp del]

definition round_half_even :: "nat \<Rightarrow> nat" where
  "round_half_even a =
     (let u = spacing a; q = a div u; r = a mod u
      in if 2 * r < u then q * u
         else if u < 2 * r then (q + 1) * u
         else if even q then q * u else (q + 1) * u)"

definition js_number :: "int \<Rightarrow> int" where
  "js_number x =
     (if \<bar>x\<bar> \<le> 9007199254740992 then x else sgn x * int (round_half_even (nat \<bar>x\<bar>)))"

definition addNotification :: "notification \<Rightarrow> provider \<Rightarrow> provider" where
  "addNotification n s =
     s\<lparr>notifications := n # notifications s, unreadCount := js_number (unreadCount s + 1)\<rparr>"

text \<open>
  \<^verbatim>\<open>markAsRead\<close>: the REST call is awaited first. Only when it resolves are the two state
  updates made and the push-channel notice sent (\<open>sent\<close> is how that call returns; it is
  inside the same \<^verbatim>\<open>try\<close>). A rejection goes straight to the \<^verbatim>\<open>catch\<close>.
\<close>

definition markAsRead :: "int \<Rightarrow> unit outcome \<Rightarrow> unit outcome \<Rightarrow> provider \<Rightarrow> provider" where
  "markAsRead i remote sent s =
     (let s1 = emit (ApiMarkAsRead i) s in
      case remote of
        Rejected e \<Rightarrow> emit (ConsoleError ''Failed to mark notification as read:'' e) s1
      | Resolved _ \<Rightarrow>
          (let s2 = s1\<lparr>notifications :=
                         map (\<lambda>n. if id_n n = i then n\<lparr>is_read := True\<rparr> else n) (notifications s1)\<rparr>;
               s3 = s2\<lparr>unreadCount := max 0 (js_number (unreadCount s2 - 1))\<rparr>;
               s4 = emit (WsMarkNotificationAsRead i) s3
           in case sent of
                Resolved _ \<Rightarrow> s4
              | Rejected e \<Rightarrow> emit (ConsoleError ''Failed to mark notification as read:'' e) s4))"

definition markAllAsRead :: "unit outcome \<Rightarrow> unit outcome \<Rightarrow> provider \<Rightarrow> provider" where
  "markAllAsRead remote sent s =
     (let s1 = emit ApiMarkAllAsRead s in
      case remote of
        Rejected e \<Rightarrow> emit (ConsoleError ''Failed to mark all notifications as read:'' e) s1
      | Resolved _ \<Rightarrow>
          (let s2 = s1\<lparr>notifications := map (\<lambda>n. n\<lparr>is_read := True\<rparr>) (notifications s1)\<rparr>;
               s3 = s2\<lparr>unreadCount := 0\<rparr>;
               s4 = emit WsMarkAllNotificationsAsRead s3
           in case sent of
                Resolved _ \<Rightarrow> s4
              | Rejected e \<Rightarrow> emit (ConsoleError ''Failed to mark all notifications as read:'' e) s4))"

subsection \<open>Push-channel handlers\<close>

text \<open>
  The three subscriptions of the provider's effect hook. \<open>now\<close> is \<^verbatim>\<open>Date.now()\<close> and
  \<open>stamp\<close> is \<^verbatim>\<open>new Date().toISOString()\<close> at the time the message is handled.
\<close>

datatype ws_message =
    Notification string string string "payload option"
  | Notification_count int
  | New_response string string string

definition on_notification ::
  "int \<Rightarrow> string \<Rightarrow> string \<Rightarrow> string \<Rightarrow> string \<Rightarrow> payload option \<Rightarrow> provider \<Rightarrow> provider" where
  "on_notification now stamp ty ttl msg d s =
     addNotification
       \<lparr>id_n = now, notification_type = ty, title = ttl, message = msg, is_read = False,
        created_at = stamp, data = (case d of Some p \<Rightarrow> p | None \<Rightarrow> [])\<rparr> s"

definition on_notification_count :: "int \<Rightarrow> provider \<Rightarrow> provider" where
  "on_notification_count unread_count s = s\<lparr>unreadCount := unread_count\<rparr>"

definition on_new_response ::
  "int \<Rightarrow> string \<Rightarrow> string \<Rightarrow> string \<Rightarrow> string \<Rightarrow> provider \<Rightarrow> provider" where
  "on_new_response now stamp form_id response_id form_title s =
     addNotification
       \<lparr>id_n = now, notification_type = ''new_response'', title = ''New Response Received'',
        message = ''New response received for '' @ [CHR 0x22] @ form_title @ [CHR 0x22],
        is_read = False, created_at = stamp,
        data = [(''form_id'', form_id), (''response_id'', response_id),
                (''form_title'', form_title)]\<rparr> s"

fun deliver :: "int \<Rightarrow> string \<Rightarrow> ws_message \<Rightarrow> provider \<Rightarrow> provider" where
  "deliver now stamp (Notification ty ttl msg d) s = on_notification now stamp ty ttl msg d s"
| "deliver now stamp (Notification_count c) s = on_notification_count c s"
| "deliver now stamp (New_response form_id response_id form_title) s =
     on_new_response now stamp form_id response_id form_title s"

subsection \<open>Runs of the aggregator\<close>

text \<open>One completed operation of the provider, with everything the environment decides.\<close>

datatype operation =
    LoadNotifications bool "notification list outcome" "int outcome"
  | AddNotification notification
  | MarkAsRead int "unit outcome" "unit outcome"
  | MarkAllAsRead "unit outcome" "unit outcome"
  | Push int string ws_message

fun step :: "operation \<Rightarrow> provider \<Rightarrow> provider" where
  "step (LoadNotifications p_first nd cd) s = loadNotifications p_first nd cd s"
| "step (AddNotification n) s = addNotification n s"
| "step (MarkAsRead i remote sent) s = markAsRead i remote sent s"
| "step (MarkAllAsRead remote sent) s = markAllAsRead remote sent s"
| "step (Push now stamp m) s = deliver now stamp m s"

definition run :: "operation list \<Rightarrow> provider \<Rightarrow> provider" where
  "run ops s = foldl (\<lambda>st a. step a st) s ops"

text \<open>
  The operations that only move the counter by local increments and decrements: no
  snapshot load and no server-supplied count.
\<close>

fun local_operation :: "operation \<Rightarrow> bool" where
  "local_operation (LoadNotifications p_first nd cd) = False"
| "local_operation (AddNotification n) = True"
| "local_operation (MarkAsRead i remote sent) = True"
| "local_operation (MarkAllAsRead remote sent) = True"
| "local_operation (Push now stamp (Notification_count c)) = False"
| "local_operation (Push now stamp m) = True"

text \<open>A state with one unread entry, id 1, and the counter at 1.\<close>

definition one_unread :: provider where
  "one_unread =
     \<lparr>notifications =
        [\<lparr>id_n = 1, notification_type = ''new_response'', title = ''New Response Received'',
          message = ''m'', is_read = False, created_at = ''2024-01-01T00:00:00.000Z'',
          data = []\<rparr>],
      unreadCount = 1, loading = False, effects = []\<rparr>"

text \<open>
  The same state with the counter at \<open>2\<^sup>5\<^sup>3\<close> and at \<open>2\<^sup>5\<^sup>3 + 2\<close>, two values a
  \<^verbatim>\<open>notification_count\<close> event or the snapshot load can store, and an entry to add.
\<close>

definition at_limit :: provider where
  "at_limit = one_unread\<lparr>unreadCount := 9007199254740992\<rparr>"

definition above_limit :: provider where
  "above_limit = one_unread\<lparr>unreadCount := 9007199254740994\<rparr>"

definition incoming :: notification where
  "incoming =
     \<lparr>id_n = 2, notification_type = ''new_response'', title = ''New Response Received'',
      message = ''n'', is_read = False, created_at = ''2024-01-02T00:00:00.000Z'', data = []\<rparr>"

text \<open>A run that marks more often than it adds, with one failing call.\<close>

definition sample_run :: "operation list" where
  "sample_run =
     [MarkAsRead 5 (Resolved ()) (Resolved ()),
      Push 1700000000000 ''2023-11-14T22:13:20.000Z'' (New_response ''3'' ''9'' ''Survey''),
      MarkAllAsRead (Rejected ''Network Error'') (Resolved ()),
      MarkAsRead 1700000000000 (Resolved ()) (Resolved ()),
      MarkAsRead 1700000000000 (Resolved ()) (Resolved ())]"

section \<open>API gateway client (src/services/api.ts, two variants)\<close>

text \<open>
  What the response interceptor touches: the \<^verbatim>\<open>authToken\<close> item of \<^verbatim>\<open>localStorage\<close>,
  \<^verbatim>\<open>window.location.pathname\<close>, and the value assigned to \<^verbatim>\<open>window.location.href\<close>
  (\<open>None\<close> while nothing has been assigned, so no navigation was requested).
\<close>

record browser =
  authToken :: "string option"
  pathname :: string
  href :: "string option"

text \<open>\<^verbatim>\<open>String.prototype.includes\<close>: the argument occurs as a contiguous substring.\<close>

fun includes_str :: "string \<Rightarrow> string \<Rightarrow> bool" where
  "includes_str [] sub = (sub = [])"
| "includes_str (c # cs) sub = (prefix sub (c # cs) \<or> includes_str cs sub)"

text \<open>
  The rejection handlers of the two variants; \<open>status\<close> is \<^verbatim>\<open>error.response?.status\<close>
  (\<open>None\<close> when the error carries no response). Both go on to reject with the same
  error, which changes nothing here.
\<close>

definition response_error_v1 :: "int option \<Rightarrow> browser \<Rightarrow> browser" where
  "response_error_v1 status b =
     (if status = Some 401
      then b\<lparr>authToken := None, href := Some ''/login''\<rparr>
      else b)"

definition response_error_v2 :: "int option \<Rightarrow> browser \<Rightarrow> browser" where
  "response_error_v2 status b =
     (if status = Some 401
      then (let b1 = b\<lparr>authToken := None\<rparr>;
                currentPath = pathname b1
            in if \<not> includes_str currentPath ''/login'' \<and> \<not> includes_str currentPath ''/feedback/''
               then b1\<lparr>href := Some ''/login''\<rparr>
               else b1)
      else b)"

text \<open>An anonymous visitor on a public feedback form.\<close>

definition on_public_form :: browser where
  "on_public_form = \<lparr>authToken = None, pathname = ''/feedback/42'', href = None\<rparr>"

section \<open>Public feedback form (src/pages/PublicFeedbackForm.tsx)\<close>

text \<open>
  An entry of the \<^verbatim>\<open>answers\<close> object: text, e-mail, number, radio and yes/no inputs
  store the input's string, the rating buttons store a number, the checkbox group stores
  an array of the ticked options. A key that was never set reads as \<^verbatim>\<open>undefined\<close>.
\<close>

datatype answer = Text string | Number nat | Choices "string list"

text \<open>The fields of a question that validation and submission read.\<close>

record question =
  id_q :: nat
  is_required :: bool

record feedback_form =
  questions :: "question list"

record submitted_answer =
  question_id :: nat
  answer_text :: string
  answer_value :: answer

datatype page_effect =
    Alert string
  | ApiSubmitFeedback string string "submitted_answer list"
  | ConsoleErrorP string string

text \<open>
  How \<^verbatim>\<open>publicFeedbackAPI.submitFeedback\<close> settles: a rejection carries the error and
  \<^verbatim>\<open>error.response?.data?.message\<close>.
\<close>

datatype submission = Accepted | Refused string "string option"

record page =
  form :: "feedback_form option"
  answers :: "(nat \<times> answer) list"
  submitting :: bool
  error :: string
  success :: bool
  trace :: "page_effect list"

text \<open>
  \<^verbatim>\<open>handleAnswerChange\<close>: the spread copy with one key set. The object is kept as a list
  of pairs with distinct keys.
\<close>

fun handleAnswerChange :: "nat \<Rightarrow> answer \<Rightarrow> (nat \<times> answer) list \<Rightarrow> (nat \<times> answer) list" where
  "handleAnswerChange k v [] = [(k, v)]"
| "handleAnswerChange k v ((k', v') # rest) =
     (if k' = k then (k, v) # rest else (k', v') # handleAnswerChange k v rest)"

text \<open>
  The test of \<^verbatim>\<open>validateForm\<close> on one looked-up answer:
  \<^verbatim>\<open>answer === undefined || answer === '' || (Array.isArray(answer) && answer.length === 0)\<close>.
\<close>

fun unanswered :: "answer option \<Rightarrow> bool" where
  "unanswered None = True"
| "unanswered (Some (Text t)) = (t = [])"
| "unanswered (Some (Number n)) = False"
| "unanswered (Some (Choices cs)) = (cs = [])"

text \<open>The \<^verbatim>\<open>for\<close> loop of \<^verbatim>\<open>validateForm\<close>, returning at the first failing question.\<close>

fun validate_questions :: "(nat \<times> answer) list \<Rightarrow> question list \<Rightarrow> bool" where
  "validate_questions ans [] = True"
| "validate_questions ans (q # qs) =
     (if is_required q
      then (if unanswered (map_of ans (id_q q)) then False else validate_questions ans qs)
      else validate_questions ans qs)"

definition validateForm :: "page \<Rightarrow> bool" where
  "validateForm p = (case form p of None \<Rightarrow> False | Some f \<Rightarrow> validate_questions (answers p) (questions f))"

text \<open>\<^verbatim>\<open>String(n)\<close> for a non-negative integer, and \<^verbatim>\<open>Array.prototype.join\<close>.\<close>

fun string_of_nat :: "nat \<Rightarrow> string" where
  "string_of_nat n =
     (if n < 10 then [char_of (48 + n)]
      else string_of_nat (n div 10) @ [char_of (48 + n mod 10)])"

fun join :: "string \<Rightarrow> string list \<Rightarrow> string" where
  "join sep [] = []"
| "join sep [x] = x"
| "join sep (x # y # rest) = x @ sep @ join sep (y # rest)"

fun answer_text_of :: "answer \<Rightarrow> string" where
  "answer_text_of (Choices cs) = join '', '' cs"
| "answer_text_of (Text t) = t"
| "answer_text_of (Number n) = string_of_nat n"

text \<open>
  \<^verbatim>\<open>Object.entries\<close>: the keys that are array indices (up to \<open>2\<^sup>3\<^sup>2 - 2\<close>) come first, in
  ascending order, then the other keys in the order in which they were first set.
\<close>

definition object_entries :: "(nat \<times> answer) list \<Rightarrow> (nat \<times> answer) list" where
  "object_entries ans =
     sort_key fst (filter (\<lambda>(k, v). k \<le> 4294967294) ans)
     @ filter (\<lambda>(k, v). \<not> k \<le> 4294967294) ans"

text \<open>
  The answers of the request body. Question ids and ratings are taken below \<open>10\<^sup>2\<^sup>1\<close>,
  where \<^verbatim>\<open>String\<close> writes the plain decimal numeral and \<^verbatim>\<open>parseInt\<close> reads it back.
\<close>

definition submitted_answers :: "(nat \<times> answer) list \<Rightarrow> submitted_answer list" where
  "submitted_answers ans =
     map (\<lambda>(questionId, v).
            \<lparr>question_id = questionId, answer_text = answer_text_of v, answer_value = v\<rparr>)
         (object_entries ans)"

definition log_page :: "page_effect \<Rightarrow> page \<Rightarrow> page" where
  "log_page e p = p\<lparr>trace := trace p @ [e]\<rparr>"

text \<open>
  \<^verbatim>\<open>handleSubmit\<close> of the first variant of the page. The second variant differs only after
  a successful submission, where it navigates to the thank-you page instead of setting
  \<^verbatim>\<open>success\<close>.
\<close>

definition handleSubmit :: "string \<Rightarrow> submission \<Rightarrow> page \<Rightarrow> page" where
  "handleSubmit formId reply p =
     (if \<not> validateForm p
      then log_page (Alert ''Please fill in all required fields.'') p
      else
        (let p1 = p\<lparr>submitting := True\<rparr>;
             p2 = log_page (ApiSubmitFeedback formId formId (submitted_answers (answers p1))) p1;
             p3 = (case reply of
                     Accepted \<Rightarrow> p2\<lparr>success := True\<rparr>
                   | Refused e msg \<Rightarrow>
                       (log_page (ConsoleErrorP ''Failed to submit feedback:'' e) p2)
                         \<lparr>error := (case msg of
                                      None \<Rightarrow> ''Failed to submit feedback. Please try again.''
                                    | Some m \<Rightarrow>
                                        if m = [] then ''Failed to submit feedback. Please try again.''
                                        else m)\<rparr>)
         in p3\<lparr>submitting := False\<rparr>))"

text \<open>
  The spec's wording of a failed validation: some required question whose answer is
  undefined, the empty string or an empty array.
\<close>

definition some_required_unanswered :: "feedback_form \<Rightarrow> (nat \<times> answer) list \<Rightarrow> bool" where
  "some_required_unanswered f ans =
     list_ex (\<lambda>q. is_required q \<and>
                (map_of ans (id_q q) = None \<or> map_of ans (id_q q) = Some (Text [])
                 \<or> map_of ans (id_q q) = Some (Choices [])))
             (questions f)"

text \<open>Two fillings of a form with a required and an optional question.\<close>

definition two_questions :: feedback_form where
  "two_questions = \<lparr>questions = [\<lparr>id_q = 1, is_required = True\<rparr>, \<lparr>id_q = 2, is_required = False\<rparr>]\<rparr>"

definition page_blank :: page where
  "page_blank = \<lparr>form = Some two_questions, answers = [(1, Text [])], submitting = False,
                 error = [], success = False, trace = []\<rparr>"

definition page_filled :: page where
  "page_filled = \<lparr>form = Some two_questions, answers = [(1, Text ''ok'')], submitting = False,
                  error = [], success = False, trace = []\<rparr>"

text \<open>The arrow function that \<^verbatim>\<open>markAsRead\<close> maps over the list, by name.\<close>

definition mark_one :: "int \<Rightarrow> notification \<Rightarrow> notification" where
  "mark_one i n = (if id_n n = i then n\<lparr>is_read := True\<rparr> else n)"

section \<open>Properties of the notification aggregator\<close>

subsection \<open>addNotification\<close>

lemma one_unread_fields:
  "notifications one_unread =
     [\<lparr>id_n = 1, notification_type = ''new_response'', title = ''New Response Received'',
       message = ''m'', is_read = False, created_at = ''2024-01-01T00:00:00.000Z'',
       data = []\<rparr>]"
  "unreadCount one_unread = 1"
  by (simp_all add: one_unread_def)

lemma js_number_exact: "\<bar>x\<bar> \<le> 9007199254740992 \<Longrightarrow> js_number x = x"
  by (simp add: js_number_def)

lemma js_number_nonneg: "0 \<le> x \<Longrightarrow> 0 \<le> js_number x"
  by (simp add: js_number_def sgn_if)

lemma js_number_nonpos: "x \<le> 0 \<Longrightarrow> js_number x \<le> 0"
  by (simp add: js_number_def sgn_if)

lemma spacing_exact: "a < 9007199254740992 \<Longrightarrow> spacing a = 1"
  by (subst spacing.simps) simp

lemma spacing_above_limit: "spacing 9007199254740993 = 2"
  by (subst spacing.simps) (simp add: spacing_exact)

lemma round_half_even_above_limit: "round_half_even 9007199254740993 = 9007199254740992"
  by (simp add: round_half_even_def spacing_above_limit Let_def)

lemma js_number_above_limit: "js_number 9007199254740993 = 9007199254740992"
  by (simp add: js_number_def round_half_even_above_limit)

lemma addNotification_fields:
  "notifications (addNotification n s) = n # notifications s"
  "unreadCount (addNotification n s) = js_number (unreadCount s + 1)"
  "loading (addNotification n s) = loading s"
  "effects (addNotification n s) = effects s"
  by (simp_all add: addNotification_def)

lemma addNotification_unreadCount_exact:
  assumes "- 9007199254740992 \<le> unreadCount s" and "unreadCount s < 9007199254740992"
  shows "unreadCount (addNotification n s) = unreadCount s + 1"
proof -
  from assms have "\<bar>unreadCount s + 1\<bar> \<le> 9007199254740992" by simp
  then show ?thesis by (simp add: addNotification_fields js_number_exact)
qed

lemma foldl_addNotification_notifications:
  "notifications (foldl (\<lambda>st n. addNotification n st) s ns) = rev ns @ notifications s"
  by (induction ns arbitrary: s) (simp_all add: addNotification_fields)

lemma foldl_addNotification_unreadCount:
  "- 9007199254740992 \<le> unreadCount s \<Longrightarrow>
   unreadCount s + int (length ns) \<le> 9007199254740992 \<Longrightarrow>
   unreadCount (foldl (\<lambda>st n. addNotification n st) s ns) = unreadCount s + int (length ns)"
proof (induction ns arbitrary: s)
  case Nil
  then show ?case by simp
next
  case (Cons n ns)
  from Cons.prems have one: "unreadCount (addNotification n s) = unreadCount s + 1"
    by (intro addNotification_unreadCount_exact) simp_all
  with Cons.prems have
    "unreadCount (foldl (\<lambda>st n. addNotification n st) (addNotification n s) ns)
       = unreadCount (addNotification n s) + int (length ns)"
    by (intro Cons.IH) simp_all
  with one show ?case by simp
qed

lemma at_limit_fields:
  "notifications at_limit = notifications one_unread"
  "unreadCount at_limit = 9007199254740992"
  by (simp_all add: at_limit_def)

lemma above_limit_fields:
  "notifications above_limit = notifications one_unread"
  "unreadCount above_limit = 9007199254740994"
  by (simp_all add: above_limit_def)

text \<open>
  C4, with the range in which the counter is exact. Each \<^verbatim>\<open>addNotification(n)\<close> puts \<open>n\<close>
  in front of the unchanged previous list, so the length grows by one and nothing is
  removed, reordered or merged; after any sequence of calls the list is the added entries,
  newest first, followed by the previous list. The unread counter grows by exactly 1 per
  call as long as it stays within \<open>-2\<^sup>5\<^sup>3 \<dots> 2\<^sup>5\<^sup>3\<close>, the integers a \<^verbatim>\<open>number\<close> counts
  without gaps.
\<close>

theorem addNotification_prepends:
  "notifications (addNotification n s) = n # notifications s
   \<and> length (notifications (addNotification n s)) = Suc (length (notifications s))
   \<and> (- 9007199254740992 \<le> unreadCount s \<and> unreadCount s < 9007199254740992 \<longrightarrow>
        unreadCount (addNotification n s) = unreadCount s + 1)
   \<and> notifications (foldl (\<lambda>st n. addNotification n st) s ns) = rev ns @ notifications s
   \<and> length (notifications (foldl (\<lambda>st n. addNotification n st) s ns))
       = length (notifications s) + length ns
   \<and> (- 9007199254740992 \<le> unreadCount s
        \<and> unreadCount s + int (length ns) \<le> 9007199254740992 \<longrightarrow>
        unreadCount (foldl (\<lambda>st n. addNotification n st) s ns)
          = unreadCount s + int (length ns))"
  by (simp add: addNotification_fields(1) foldl_addNotification_notifications
      foldl_addNotification_unreadCount addNotification_unreadCount_exact)

theorem addNotification_prepends_witness:
  "notifications (addNotification incoming one_unread) = incoming # notifications one_unread
   \<and> unreadCount one_unread = 1
   \<and> unreadCount (addNotification incoming one_unread) = 2
   \<and> unreadCount (foldl (\<lambda>st n. addNotification n st) one_unread [incoming, incoming]) = 3"
  using addNotification_prepends [of incoming one_unread "[incoming, incoming]"]
  by (simp add: one_unread_fields(2))

text \<open>
  Without the range the count fails: with the counter at \<open>2\<^sup>5\<^sup>3\<close>, adding an entry
  leaves the counter where it is.
\<close>

theorem addNotification_at_limit_counterexample:
  "length (notifications (addNotification incoming at_limit))
     = Suc (length (notifications at_limit))
   \<and> unreadCount at_limit = 9007199254740992
   \<and> unreadCount (addNotification incoming at_limit) = 9007199254740992
   \<and> unreadCount (addNotification incoming at_limit) \<noteq> unreadCount at_limit + 1"
  by (simp add: addNotification_fields at_limit_fields js_number_above_limit)

subsection \<open>markAsRead\<close>

lemma markAsRead_rejected:
  "markAsRead i (Rejected e) sent s =
     s\<lparr>effects := effects s @ [ApiMarkAsRead i, ConsoleError ''Failed to mark notification as read:'' e]\<rparr>"
  by (simp add: markAsRead_def emit_def)

lemma markAsRead_resolved_notifications:
  "notifications (markAsRead i (Resolved u) sent s) =
     map (\<lambda>n. if id_n n = i then n\<lparr>is_read := True\<rparr> else n) (notifications s)"
  by (cases sent) (simp_all add: markAsRead_def emit_def Let_def)

lemma markAsRead_resolved_unreadCount:
  "unreadCount (markAsRead i (Resolved u) sent s) = max 0 (js_number (unreadCount s - 1))"
  by (cases sent) (simp_all add: markAsRead_def emit_def Let_def)

lemma decrement_floored:
  assumes "c \<le> 9007199254740992"
  shows "max 0 (js_number (c - 1)) = (if 1 \<le> c then c - 1 else 0)"
proof (cases "1 \<le> c")
  case True
  with assms have "\<bar>c - 1\<bar> \<le> 9007199254740992" by simp
  then have "js_number (c - 1) = c - 1" by (rule js_number_exact)
  with True show ?thesis by simp
next
  case False
  then have "js_number (c - 1) \<le> 0" by (intro js_number_nonpos) simp
  with False show ?thesis by simp
qed

lemma markAsRead_resolved_mark_one:
  "notifications (markAsRead i (Resolved u) sent s) = map (mark_one i) (notifications s)"
  unfolding markAsRead_resolved_notifications by (rule map_cong) (simp_all add: mark_one_def)




lemma mark_one_already_read: "(id_n n = i \<longrightarrow> is_read n) \<Longrightarrow> mark_one i n = n"
  by (cases "id_n n = i") (simp_all add: mark_one_def)

text \<open>
  C1, as the code has it. When the remote mark-read call of \<^verbatim>\<open>markAsRead(id)\<close> fails, the failure
  is logged and nothing else happens: the list, the unread counter and the loading flag are
  exactly what they were, since the two state updates come after the awaited call. There is
  no local mutation to roll back.
\<close>

theorem markAsRead_failure_keeps_state:
  "notifications (markAsRead i (Rejected e) sent s) = notifications s
   \<and> unreadCount (markAsRead i (Rejected e) sent s) = unreadCount s
   \<and> loading (markAsRead i (Rejected e) sent s) = loading s
   \<and> effects (markAsRead i (Rejected e) sent s)
       = effects s @ [ApiMarkAsRead i, ConsoleError ''Failed to mark notification as read:'' e]"
  by (simp add: markAsRead_rejected)

text \<open>
  The optimistic reading fails: with one unread entry of id 1 and the counter at 1, a failing
  \<^verbatim>\<open>markAsRead(1)\<close> leaves the entry unread and the counter at 1.
\<close>

theorem markAsRead_failure_counterexample:
  "\<not> (list_all is_read
         (notifications (markAsRead 1 (Rejected ''Network Error'') (Resolved ()) one_unread))
      \<and> unreadCount (markAsRead 1 (Rejected ''Network Error'') (Resolved ()) one_unread)
          = unreadCount one_unread - 1)"
  by (simp add: markAsRead_rejected one_unread_fields)




text \<open>
  C9, with the range in which the counter is exact. When the remote call succeeds and every
  entry carrying the given id is already read (in particular when no entry carries it),
  \<^verbatim>\<open>markAsRead(id)\<close> leaves the list as it was and still takes 1 off an unread counter of
  at most \<open>2\<^sup>5\<^sup>3\<close>, floored at 0: the decrement does not look at the list.
\<close>

theorem markAsRead_without_unread_match:
  assumes "\<forall>n \<in> set (notifications s). id_n n = i \<longrightarrow> is_read n"
  shows "notifications (markAsRead i (Resolved u) sent s) = notifications s
    \<and> (unreadCount s \<le> 9007199254740992 \<longrightarrow>
         unreadCount (markAsRead i (Resolved u) sent s)
           = (if 1 \<le> unreadCount s then unreadCount s - 1 else 0))"
proof
  have "map (mark_one i) (notifications s) = map (\<lambda>n. n) (notifications s)"
    using assms by (intro map_cong refl mark_one_already_read) blast
  then show "notifications (markAsRead i (Resolved u) sent s) = notifications s"
    unfolding markAsRead_resolved_mark_one by simp
  show "unreadCount s \<le> 9007199254740992 \<longrightarrow>
         unreadCount (markAsRead i (Resolved u) sent s)
           = (if 1 \<le> unreadCount s then unreadCount s - 1 else 0)"
    unfolding markAsRead_resolved_unreadCount by (intro impI decrement_floored)
qed

theorem markAsRead_without_unread_match_witness:
  "notifications (markAsRead 7 (Resolved ()) (Resolved ()) one_unread) = notifications one_unread
   \<and> unreadCount one_unread = 1
   \<and> unreadCount (markAsRead 7 (Resolved ()) (Resolved ()) one_unread) = 0
   \<and> notifications (markAsRead 7 (Resolved ()) (Resolved ()) initial) = []
   \<and> unreadCount (markAsRead 7 (Resolved ()) (Resolved ()) initial) = 0"
  using markAsRead_without_unread_match [of one_unread 7 "()" "Resolved ()"]
        markAsRead_without_unread_match [of initial 7 "()" "Resolved ()"]
  by (simp add: one_unread_fields initial_def)

text \<open>
  Without the range the decrement fails here too: no entry has id 7, the counter is at
  \<open>2\<^sup>5\<^sup>3 + 2\<close>, and a successful \<^verbatim>\<open>markAsRead(7)\<close> takes the counter down by 2.
\<close>

theorem markAsRead_no_match_above_limit_counterexample:
  "map id_n (notifications above_limit) = [1]
   \<and> notifications (markAsRead 7 (Resolved ()) (Resolved ()) above_limit)
       = notifications above_limit
   \<and> unreadCount above_limit = 9007199254740994
   \<and> unreadCount (markAsRead 7 (Resolved ()) (Resolved ()) above_limit) = 9007199254740992
   \<and> unreadCount (markAsRead 7 (Resolved ()) (Resolved ()) above_limit)
       \<noteq> unreadCount above_limit - 1"
  by (simp add: markAsRead_resolved_unreadCount markAsRead_resolved_notifications
      above_limit_fields one_unread_fields js_number_above_limit)

subsection \<open>markAllAsRead\<close>

lemma markAllAsRead_resolved_notifications:
  "notifications (markAllAsRead (Resolved u) sent s) =
     map (\<lambda>n. n\<lparr>is_read := True\<rparr>) (notifications s)"
  by (cases sent) (simp_all add: markAllAsRead_def emit_def Let_def)

lemma markAllAsRead_resolved_unreadCount:
  "unreadCount (markAllAsRead (Resolved u) sent s) = 0"
  by (cases sent) (simp_all add: markAllAsRead_def emit_def Let_def)

lemma markAllAsRead_rejected:
  "markAllAsRead (Rejected e) sent s =
     s\<lparr>effects := effects s @
          [ApiMarkAllAsRead, ConsoleError ''Failed to mark all notifications as read:'' e]\<rparr>"
  by (simp add: markAllAsRead_def emit_def)

text \<open>
  C3. Whatever the state before, a \<^verbatim>\<open>markAllAsRead()\<close> whose remote call succeeds leaves
  the unread counter at exactly 0 and every entry read; the list keeps its length, and
  position by position the id, type, title, message, creation time and payload are the
  ones from before, so nothing but the read flag changes and the order stays.
\<close>

theorem markAllAsRead_marks_everything:
  "unreadCount (markAllAsRead (Resolved u) sent s) = 0
   \<and> length (notifications (markAllAsRead (Resolved u) sent s)) = length (notifications s)
   \<and> list_all is_read (notifications (markAllAsRead (Resolved u) sent s))
   \<and> map (\<lambda>n. (id_n n, notification_type n, title n, message n, created_at n, data n))
        (notifications (markAllAsRead (Resolved u) sent s))
      = map (\<lambda>n. (id_n n, notification_type n, title n, message n, created_at n, data n))
          (notifications s)
   \<and> notifications (markAllAsRead (Resolved u) sent s)
      = map (\<lambda>n. n\<lparr>is_read := True\<rparr>) (notifications s)"
  by (simp add: markAllAsRead_resolved_notifications markAllAsRead_resolved_unreadCount
      list_all_iff comp_def)

subsection \<open>Server-supplied count\<close>

text \<open>
  C5. Handling a \<^verbatim>\<open>notification_count\<close> push event with value \<open>v\<close> leaves the unread
  counter at exactly \<open>v\<close>, whatever it was and whatever the list holds, and changes
  neither the list nor anything else.
\<close>

theorem notification_count_overwrites:
  "unreadCount (deliver now stamp (Notification_count v) s) = v
   \<and> notifications (deliver now stamp (Notification_count v) s) = notifications s
   \<and> loading (deliver now stamp (Notification_count v) s) = loading s
   \<and> effects (deliver now stamp (Notification_count v) s) = effects s
   \<and> unreadCount (on_notification_count v s) = v
   \<and> notifications (on_notification_count v s) = notifications s"
  by (simp add: on_notification_count_def)

subsection \<open>Snapshot load\<close>

lemma loadNotifications_loading:
  "loading (loadNotifications p_first nd cd s) = False"
  by (simp add: loadNotifications_def Let_def)

lemma loadNotifications_rejected:
  assumes "promise_all p_first nd cd = Rejected e"
  shows "loadNotifications p_first nd cd s =
    s\<lparr>loading := False,
      effects := effects s @ [ApiGetNotifications, ApiGetUnreadCount,
                              ConsoleError ''Failed to load notifications:'' e]\<rparr>"
  using assms by (simp add: loadNotifications_def Let_def emit_def)

lemma promise_all_rejected:
  "(\<exists>e. nd = Rejected e) \<or> (\<exists>e. cd = Rejected e) \<Longrightarrow>
   \<exists>e. promise_all p_first nd cd = Rejected e"
  by (cases nd; cases cd) simp_all

text \<open>
  C6. \<^verbatim>\<open>loadNotifications\<close> always ends with the loading flag false. If the list fetch or
  the count fetch fails, the list and the unread counter are the ones from before the call
  (empty and zero when it is the first thing that happens), and all the call has done is
  issue each of the two requests once and log one error: nothing is fetched again.
\<close>

theorem loadNotifications_completion:
  "loading (loadNotifications p_first nd cd s) = False
   \<and> ((\<exists>e. nd = Rejected e) \<or> (\<exists>e. cd = Rejected e) \<longrightarrow>
        notifications (loadNotifications p_first nd cd s) = notifications s
        \<and> unreadCount (loadNotifications p_first nd cd s) = unreadCount s
        \<and> (\<exists>e. effects (loadNotifications p_first nd cd s)
                = effects s @ [ApiGetNotifications, ApiGetUnreadCount,
                               ConsoleError ''Failed to load notifications:'' e]))"
proof (intro conjI impI)
  show "loading (loadNotifications p_first nd cd s) = False"
    by (rule loadNotifications_loading)
next
  assume "(\<exists>e. nd = Rejected e) \<or> (\<exists>e. cd = Rejected e)"
  then obtain e where "promise_all p_first nd cd = Rejected e"
    using promise_all_rejected by blast
  then have r: "loadNotifications p_first nd cd s =
    s\<lparr>loading := False,
      effects := effects s @ [ApiGetNotifications, ApiGetUnreadCount,
                              ConsoleError ''Failed to load notifications:'' e]\<rparr>"
    by (rule loadNotifications_rejected)
  show "notifications (loadNotifications p_first nd cd s) = notifications s"
    by (simp add: r)
  show "unreadCount (loadNotifications p_first nd cd s) = unreadCount s"
    by (simp add: r)
  show "\<exists>e. effects (loadNotifications p_first nd cd s)
          = effects s @ [ApiGetNotifications, ApiGetUnreadCount,
                         ConsoleError ''Failed to load notifications:'' e]"
    by (simp add: r)
qed

theorem loadNotifications_completion_witness:
  "loading initial
   \<and> \<not> loading (loadNotifications True (Resolved []) (Rejected ''Network Error'') initial)
   \<and> notifications (loadNotifications True (Resolved []) (Rejected ''Network Error'') initial) = []
   \<and> unreadCount (loadNotifications True (Resolved []) (Rejected ''Network Error'') initial) = 0"
  using loadNotifications_completion [of True "Resolved []" "Rejected ''Network Error''" initial]
  by (simp add: initial_def)

subsection \<open>The counter over runs\<close>

lemma addNotification_unreadCount_nonneg:
  "0 \<le> unreadCount s \<Longrightarrow> 0 \<le> unreadCount (addNotification n s)"
  unfolding addNotification_fields by (rule js_number_nonneg) simp

lemma markAsRead_unreadCount_nonneg:
  "0 \<le> unreadCount s \<Longrightarrow> 0 \<le> unreadCount (markAsRead i remote sent s)"
  by (cases remote; cases sent) (simp_all add: markAsRead_def emit_def Let_def)

lemma markAllAsRead_unreadCount_nonneg:
  "0 \<le> unreadCount s \<Longrightarrow> 0 \<le> unreadCount (markAllAsRead remote sent s)"
  by (cases remote; cases sent) (simp_all add: markAllAsRead_def emit_def Let_def)

lemma deliver_unreadCount_nonneg:
  "local_operation (Push now stamp m) \<Longrightarrow> 0 \<le> unreadCount s \<Longrightarrow>
   0 \<le> unreadCount (deliver now stamp m s)"
  by (cases m)
     (simp_all add: on_notification_def on_new_response_def addNotification_unreadCount_nonneg)

lemma step_unreadCount_nonneg:
  "local_operation a \<Longrightarrow> 0 \<le> unreadCount s \<Longrightarrow> 0 \<le> unreadCount (step a s)"
proof (cases a)
  case (Push now stamp m)
  assume "local_operation a" "0 \<le> unreadCount s"
  with Push show ?thesis using deliver_unreadCount_nonneg [of now stamp m s] by simp
qed (simp_all add: addNotification_unreadCount_nonneg markAsRead_unreadCount_nonneg
       markAllAsRead_unreadCount_nonneg)

lemma run_unreadCount_nonneg:
  "list_all local_operation ops \<Longrightarrow> 0 \<le> unreadCount s \<Longrightarrow> 0 \<le> unreadCount (run ops s)"
proof (induction ops arbitrary: s)
  case Nil
  then show ?case by (simp add: run_def)
next
  case (Cons a ops)
  from Cons.prems have "0 \<le> unreadCount (step a s)"
    by (simp add: step_unreadCount_nonneg)
  moreover from Cons.prems have "list_all local_operation ops" by simp
  ultimately have "0 \<le> unreadCount (run ops (step a s))" by (rule Cons.IH[rotated])
  then show ?case by (simp add: run_def)
qed

text \<open>
  C10. From the initial state (empty list, counter 0), after any finite sequence of
  completed \<^verbatim>\<open>addNotification\<close> calls, \<^verbatim>\<open>markAsRead\<close> and \<^verbatim>\<open>markAllAsRead\<close> calls that
  succeed or fail, and handlings of \<^verbatim>\<open>notification\<close> and \<^verbatim>\<open>new_response\<close> push events,
  the unread counter is at least 0.
\<close>

theorem unreadCount_never_negative:
  "list_all local_operation ops \<Longrightarrow> 0 \<le> unreadCount (run ops initial)"
  by (rule run_unreadCount_nonneg) (simp_all add: initial_def)

theorem unreadCount_never_negative_witness:
  "list_all local_operation sample_run \<and> 0 \<le> unreadCount (run sample_run initial)"
  using unreadCount_never_negative [of sample_run]
  by (simp add: sample_run_def)

section \<open>Properties of the API gateway client\<close>

lemma response_error_v1_unauthorized:
  "authToken (response_error_v1 (Some 401) b) = None
   \<and> pathname (response_error_v1 (Some 401) b) = pathname b
   \<and> href (response_error_v1 (Some 401) b) = Some ''/login''"
  by (simp add: response_error_v1_def)

text \<open>
  The variant that reads the current path does what the gateway is meant to do on an
  unauthorized response: the token is removed, and the browser is sent to the login entry
  point unless the path contains \<^verbatim>\<open>/login\<close> or \<^verbatim>\<open>/feedback/\<close>.
\<close>

lemma response_error_v2_unauthorized:
  "authToken (response_error_v2 (Some 401) b) = None
   \<and> pathname (response_error_v2 (Some 401) b) = pathname b
   \<and> href (response_error_v2 (Some 401) b)
       = (if includes_str (pathname b) ''/login'' \<or> includes_str (pathname b) ''/feedback/''
          then href b else Some ''/login'')"
  by (simp add: response_error_v2_def Let_def)

lemma response_error_other_status:
  "status \<noteq> Some 401 \<Longrightarrow> response_error_v1 status b = b \<and> response_error_v2 status b = b"
  by (simp add: response_error_v1_def response_error_v2_def)

lemma on_public_form_path:
  "includes_str (pathname on_public_form) ''/feedback/''"
  by (simp add: on_public_form_def)

text \<open>
  C7. On an unauthorized response the interceptor is to remove the token and redirect to
  the login entry point, except on a login or public feedback view, where no redirect
  occurs. On the public form \<^verbatim>\<open>/feedback/42\<close> the first variant of the client redirects
  to \<^verbatim>\<open>/login\<close> all the same, while the second variant, on the same input, does not.
\<close>

theorem response_error_v1_interrupts_public_form:
  "includes_str (pathname on_public_form) ''/feedback/''
   \<and> href on_public_form = None
   \<and> href (response_error_v1 (Some 401) on_public_form) = Some ''/login''
   \<and> href (response_error_v2 (Some 401) on_public_form) = None"
  by (simp add: response_error_v1_unauthorized response_error_v2_unauthorized on_public_form_path)
     (simp add: on_public_form_def)

section \<open>Properties of the public feedback form\<close>

lemma unanswered_iff:
  "unanswered x \<longleftrightarrow> x = None \<or> x = Some (Text []) \<or> x = Some (Choices [])"
  by (cases x rule: unanswered.cases) simp_all

lemma validate_questions_iff:
  "validate_questions ans qs \<longleftrightarrow>
     \<not> list_ex (\<lambda>q. is_required q \<and> unanswered (map_of ans (id_q q))) qs"
  by (induction qs) simp_all

lemma validateForm_iff:
  "form p = Some f \<Longrightarrow> validateForm p \<longleftrightarrow> \<not> some_required_unanswered f (answers p)"
  by (simp add: validateForm_def some_required_unanswered_def validate_questions_iff
      unanswered_iff)

lemma handleSubmit_invalid:
  "\<not> validateForm p \<Longrightarrow>
   handleSubmit formId reply p =
     p\<lparr>trace := trace p @ [Alert ''Please fill in all required fields.'']\<rparr>"
  by (simp add: handleSubmit_def log_page_def)

lemma handleSubmit_valid_trace:
  "validateForm p \<Longrightarrow>
   trace (handleSubmit formId reply p) =
     trace p @ ApiSubmitFeedback formId formId (submitted_answers (answers p)) #
       (case reply of Accepted \<Rightarrow> []
        | Refused e msg \<Rightarrow> [ConsoleErrorP ''Failed to submit feedback:'' e])"
  by (cases reply) (simp_all add: handleSubmit_def log_page_def Let_def)

text \<open>
  C8. With a form loaded, submitting it does one of two things. If some required question
  has an answer that is undefined, the empty string or an empty array, the only effect is
  the alert: no submission request is made. Otherwise the submission request is issued,
  carrying the form id and the answers.
\<close>

theorem handleSubmit_gate:
  assumes "form p = Some f"
  shows "trace (handleSubmit formId reply p) =
     trace p @
       (if some_required_unanswered f (answers p)
        then [Alert ''Please fill in all required fields.'']
        else ApiSubmitFeedback formId formId (submitted_answers (answers p)) #
               (case reply of Accepted \<Rightarrow> []
                | Refused e msg \<Rightarrow> [ConsoleErrorP ''Failed to submit feedback:'' e]))"
proof (cases "some_required_unanswered f (answers p)")
  case True
  with assms have "\<not> validateForm p" by (simp add: validateForm_iff)
  with True show ?thesis by (simp add: handleSubmit_invalid)
next
  case False
  with assms have "validateForm p" by (simp add: validateForm_iff)
  with False show ?thesis by (simp add: handleSubmit_valid_trace)
qed

theorem handleSubmit_gate_witness:
  "trace (handleSubmit ''42'' Accepted page_blank) = [Alert ''Please fill in all required fields.'']
   \<and> trace (handleSubmit ''42'' Accepted page_filled)
       = [ApiSubmitFeedback ''42'' ''42''
            [\<lparr>question_id = 1, answer_text = ''ok'', answer_value = Text ''ok''\<rparr>]]"
  using handleSubmit_gate [of page_blank two_questions "''42''" Accepted]
        handleSubmit_gate [of page_filled two_questions "''42''" Accepted]
  by (simp add: page_blank_def page_filled_def two_questions_def some_required_unanswered_def
      submitted_answers_def object_entries_def)

end
